theory Spec2Isabelle
  imports Complex_Main
begin

section \<open>Python values used by \<open>parsers.py\<close>\<close>

text \<open>
  A Python \<open>str\<close> is a sequence of Unicode code points, so it is modelled as a list of
  natural numbers (the regular expression of \<open>CsvToExcelConverterParser\<close> names code
  points up to \<open>U+FFFF\<close>, which the 8-bit characters of HOL cannot hold).
  \<open>str_lit\<close> reads an ASCII literal of the source.
\<close>

type_synonym codepoint = nat
type_synonym pystr = "codepoint list"

definition str_lit :: "string \<Rightarrow> pystr" where
  "str_lit s = map of_char s"

text \<open>
  \<open>str.lower()\<close>. On ASCII text Python maps \<open>A\<close>..\<open>Z\<close> to \<open>a\<close>..\<open>z\<close> and leaves every
  other code point as it is. On text with other code points it follows the Unicode case
  tables, which are no part of the source: they are the parameter \<open>u\<close>.
\<close>

definition isascii :: "pystr \<Rightarrow> bool" where
  "isascii s = list_all (\<lambda>c. c < 128) s"

definition ascii_lower :: "codepoint \<Rightarrow> codepoint" where
  "ascii_lower c = (if 65 \<le> c \<and> c \<le> 90 then c + 32 else c)"

definition lower :: "(pystr \<Rightarrow> pystr) \<Rightarrow> pystr \<Rightarrow> pystr" where
  "lower u s = (if isascii s then map ascii_lower s else u s)"

text \<open>
  The exceptions the source raises itself are both \<open>ValueError\<close>, told apart by their
  message. \<open>TypeError\<close> is what Python raises when a class with abstract methods is
  instantiated and \<open>AttributeError\<close> when an attribute of \<open>None\<close> is read (their messages
  are not the source's, and are left out); \<open>LibraryError\<close> is any error of a library.
\<close>

datatype py_error =
    ValueError pystr
  | TypeError
  | AttributeError
  | LibraryError pystr

section \<open>Classes: \<open>Parser\<close> and its subclasses\<close>

text \<open>
  Of a class the source observes three things: \<open>issubclass(parser_class, Parser)\<close>, the
  truth value of the class object in \<open>if not parser_class\<close>, and the call
  \<open>parser_class()\<close>. A class is therefore
  \<^item> its name and its identity (two classes may bear one name);
  \<^item> the identities of the classes of its method resolution order, itself first;
  \<^item> the identities of the abstract base classes that it, or a class of its method
    resolution order, has been registered with as a virtual subclass (\<open>ABC.register\<close>);
  \<^item> the truth value of the class object, which is \<open>True\<close> unless the metaclass defines
    \<open>__bool__\<close> or \<open>__len__\<close>;
  \<^item> the abstract methods it has not implemented;
  \<^item> the error that \<open>__new__\<close> or \<open>__init__\<close> raise when the class is called with no
    argument, if they raise (a \<open>TypeError\<close> when \<open>__init__\<close> requires an argument).
  \<open>Parser\<close> derives from \<open>ABC\<close> and declares \<open>parse\<close> with \<open>@abstractmethod\<close>; the four
  parsers implement it and define no constructor.
\<close>

record py_class =
  class_name :: string
  class_id :: nat
  mro_ids :: "nat list"
  virtual_bases :: "nat list"
  truth_value :: bool
  abstractmethods :: "string list"
  init_error :: "py_error option"

definition object_id :: nat where "object_id = 0"

definition ABC_id :: nat where "ABC_id = 1"

definition Parser :: py_class where
  "Parser = \<lparr>class_name = ''Parser'', class_id = 2, mro_ids = [2, ABC_id, object_id],
     virtual_bases = [], truth_value = True, abstractmethods = [''parse''],
     init_error = None\<rparr>"

definition CsvParser :: py_class where
  "CsvParser = \<lparr>class_name = ''CsvParser'', class_id = 3,
     mro_ids = [3, class_id Parser, ABC_id, object_id],
     virtual_bases = [], truth_value = True, abstractmethods = [], init_error = None\<rparr>"

definition PsvParser :: py_class where
  "PsvParser = \<lparr>class_name = ''PsvParser'', class_id = 4,
     mro_ids = [4, class_id Parser, ABC_id, object_id],
     virtual_bases = [], truth_value = True, abstractmethods = [], init_error = None\<rparr>"

definition ExcelParser :: py_class where
  "ExcelParser = \<lparr>class_name = ''ExcelParser'', class_id = 5,
     mro_ids = [5, class_id Parser, ABC_id, object_id],
     virtual_bases = [], truth_value = True, abstractmethods = [], init_error = None\<rparr>"

definition CsvToExcelConverterParser :: py_class where
  "CsvToExcelConverterParser = \<lparr>class_name = ''CsvToExcelConverterParser'', class_id = 6,
     mro_ids = [6, class_id Parser, ABC_id, object_id],
     virtual_bases = [], truth_value = True, abstractmethods = [], init_error = None\<rparr>"

text \<open>
  \<open>issubclass(c, d)\<close> for an abstract base class \<open>d\<close> that defines no \<open>__subclasshook__\<close>,
  as \<open>Parser\<close> is: \<open>d\<close> is a class of the method resolution order of \<open>c\<close>, or \<open>c\<close> is a
  virtual subclass of \<open>d\<close>.
\<close>

definition issubclass :: "py_class \<Rightarrow> py_class \<Rightarrow> bool" where
  "issubclass c d = (class_id d \<in> set (mro_ids c) \<or> class_id d \<in> set (virtual_bases c))"

text \<open>An object is an instance of its class; the parsers have no fields.\<close>

datatype py_object = Instance py_class

text \<open>
  \<open>parser_class()\<close>: a class that still has abstract methods cannot be instantiated, and
  the constructor of any other class may raise.
\<close>

definition instantiate :: "py_class \<Rightarrow> py_error + py_object" where
  "instantiate c =
     (if abstractmethods c \<noteq> [] then Inl TypeError
      else case init_error c of Some e \<Rightarrow> Inl e | None \<Rightarrow> Inr (Instance c))"

text \<open>
  What the specification calls a conforming constructor: one that produces a value with
  the \<open>parse\<close> capability, that is a subclass of \<open>Parser\<close> whose call with no argument
  returns an instance (a class that derives from \<open>Parser\<close> and has no abstract method left
  has implemented \<open>parse\<close>). The truth value of the class object is no part of it.
\<close>

definition conforming :: "py_class \<Rightarrow> bool" where
  "conforming c = (issubclass c Parser \<and> abstractmethods c = [] \<and> init_error c = None)"


definition NeedsPath :: py_class where
  "NeedsPath = \<lparr>class_name = ''NeedsPath'', class_id = 8,
     mro_ids = [8, class_id Parser, ABC_id, object_id],
     virtual_bases = [], truth_value = True, abstractmethods = [],
     init_error = Some TypeError\<rparr>"





section \<open>\<open>ParserFactory\<close>\<close>

text \<open>
  The factory holds one dictionary, \<open>_parsers\<close>, from file type to parser class. Both
  methods take the factory and return it with their result, so that what a call does to
  the registry is part of the model.
\<close>

record ParserFactory =
  parsers :: "pystr \<rightharpoonup> py_class"

definition ParserFactory_init :: ParserFactory where
  "ParserFactory_init = \<lparr>parsers = Map.empty\<rparr>"

definition register_parser ::
  "(pystr \<Rightarrow> pystr) \<Rightarrow> ParserFactory \<Rightarrow> pystr \<Rightarrow> py_class \<Rightarrow> (py_error + unit) \<times> ParserFactory"
where
  "register_parser u self file_type parser_class =
     (if \<not> issubclass parser_class Parser
      then (Inl (ValueError (str_lit ''Registered class must be a subclass of Parser'')), self)
      else (Inr (), self\<lparr>parsers := (parsers self)(lower u file_type \<mapsto> parser_class)\<rparr>))"

text \<open>
  \<open>get_parser\<close>: \<open>dict.get\<close> gives \<open>None\<close> for a missing key, and \<open>not parser_class\<close> holds
  for \<open>None\<close> and for a class whose class object is falsy.
\<close>

definition get_parser ::
  "(pystr \<Rightarrow> pystr) \<Rightarrow> ParserFactory \<Rightarrow> pystr \<Rightarrow> (py_error + py_object) \<times> ParserFactory"
where
  "get_parser u self file_type =
     (case parsers self (lower u file_type) of
        None \<Rightarrow>
          (Inl (ValueError (str_lit ''No parser registered for file type: '' @ file_type)), self)
      | Some parser_class \<Rightarrow>
          (if \<not> truth_value parser_class
           then (Inl (ValueError (str_lit ''No parser registered for file type: '' @ file_type)),
                 self)
           else (instantiate parser_class, self)))"

text \<open>The module's own factory, with the four parsers registered in the source's order.\<close>

definition parser_factory :: "(pystr \<Rightarrow> pystr) \<Rightarrow> ParserFactory" where
  "parser_factory u =
     (let f0 = ParserFactory_init;
          f1 = snd (register_parser u f0 (str_lit ''csv'') CsvParser);
          f2 = snd (register_parser u f1 (str_lit ''psv'') PsvParser);
          f3 = snd (register_parser u f2 (str_lit ''excel'') ExcelParser);
          f4 = snd (register_parser u f3 (str_lit ''csv_to_excel'') CsvToExcelConverterParser)
      in f4)"

text \<open>The two errors of the registry, under the names the specification gives them.\<close>

definition InvalidParserType :: py_error where
  "InvalidParserType = ValueError (str_lit ''Registered class must be a subclass of Parser'')"

definition UnknownFormat :: "pystr \<Rightarrow> py_error" where
  "UnknownFormat file_type =
     ValueError (str_lit ''No parser registered for file type: '' @ file_type)"


text \<open>The variant of a parser instance is its class.\<close>

definition class_of :: "py_object \<Rightarrow> py_class" where
  "class_of obj = (case obj of Instance c \<Rightarrow> c)"

section \<open>Tables: \<open>pandas.DataFrame\<close>\<close>

text \<open>
  A table is an ordered sequence of named columns of cells. A cell read from a CSV file is
  a \<open>str\<close>, an \<open>int\<close>, a \<open>float\<close> (a finite one, as the real it denotes, or NaN, which also
  stands for a missing value) or a \<open>bool\<close>.
\<close>

datatype cell = CStr pystr | CInt int | CFloat real | CBool bool | CNaN

record column =
  col_name :: pystr
  cells :: "cell list"

type_synonym dataframe = "column list"

text \<open>\<open>df.applymap(f)\<close> applies \<open>f\<close> to every cell and leaves the column names alone.\<close>

definition applymap :: "(cell \<Rightarrow> cell) \<Rightarrow> dataframe \<Rightarrow> dataframe" where
  "applymap f df = map (\<lambda>col. col\<lparr>cells := map f (cells col)\<rparr>) df"

section \<open>The regular expression of \<open>CsvToExcelConverterParser\<close>\<close>

text \<open>
  The pattern is one character class, a list of single code points and of ranges with
  both ends included. \<open>pattern.sub('', s)\<close> deletes every match, that is every code point
  of \<open>s\<close> in the class.
\<close>

datatype class_item = Single codepoint | Range codepoint codepoint

fun item_matches :: "class_item \<Rightarrow> codepoint \<Rightarrow> bool" where
  "item_matches (Single a) c = (c = a)"
| "item_matches (Range a b) c = (a \<le> c \<and> c \<le> b)"

definition class_matches :: "class_item list \<Rightarrow> codepoint \<Rightarrow> bool" where
  "class_matches items c = list_ex (\<lambda>i. item_matches i c) items"

definition re_sub_empty :: "class_item list \<Rightarrow> pystr \<Rightarrow> pystr" where
  "re_sub_empty items s = filter (\<lambda>c. \<not> class_matches items c) s"

definition illegal_xml_chars_re :: "class_item list" where
  "illegal_xml_chars_re =
     [Range 0x00 0x08, Single 0x0b, Single 0x0c, Range 0x0e 0x1f, Range 0x7f 0x84,
      Range 0x86 0x9f, Range 0xfdd0 0xfddf, Single 0xfffe, Single 0xffff]"

text \<open>\<open>_sanitize_string\<close>: \<open>isinstance(s, str)\<close> holds of the text cells only.\<close>

definition sanitize_string :: "cell \<Rightarrow> cell" where
  "sanitize_string s =
     (case s of CStr t \<Rightarrow> CStr (re_sub_empty illegal_xml_chars_re t) | _ \<Rightarrow> s)"

text \<open>
  The specification's words: the code points that are illegal in the spreadsheet's XML,
  and the sanitizing of a cell, which removes them from a text cell and lets every other
  cell through.
\<close>

definition spec_illegal_xml :: "codepoint set" where
  "spec_illegal_xml =
     {0x0000..0x0008} \<union> {0x000B..0x000C} \<union> {0x000E..0x001F} \<union> {0x007F..0x0084}
     \<union> {0x0086..0x009F} \<union> {0xFDD0..0xFDDF} \<union> {0xFFFE} \<union> {0xFFFF}"

definition spec_sanitize :: "cell \<Rightarrow> cell" where
  "spec_sanitize c =
     (case c of CStr t \<Rightarrow> CStr (filter (\<lambda>x. x \<notin> spec_illegal_xml) t) | _ \<Rightarrow> c)"

definition is_text :: "cell \<Rightarrow> bool" where
  "is_text c = (case c of CStr t \<Rightarrow> True | _ \<Rightarrow> False)"

section \<open>The libraries and the world outside the program\<close>

text \<open>
  A row of a worksheet is a tuple of cell values, \<open>None\<close> for an empty cell; the source
  only asks whether a value is \<open>None\<close>, so the values are of any type \<open>'c\<close>. The iterator
  \<open>sheet.values\<close> yields rows and may then raise: a worksheet is the rows it yields and the
  error that follows them, if any. \<open>wb.active\<close> is \<open>None\<close> for a workbook with no sheet.
\<close>

type_synonym 'c row = "'c option list"

record 'c worksheet =
  sheet_values :: "'c row list"
  values_error :: "py_error option"

record 'c workbook =
  active :: "'c worksheet option"

text \<open>
  What the libraries do is not in the source, and is a parameter of the model:
  \<^item> \<open>unicode_lower\<close>, the Unicode case tables of \<open>str.lower\<close>, and \<open>splitext\<close>, which is
    \<open>os.path.splitext\<close>;
  \<^item> \<open>read_csv\<close> and \<open>read_excel\<close>, the table \<open>pandas\<close> reads from a path, or its error;
  \<^item> \<open>to_excel_error\<close> and \<open>to_csv_error\<close>, the error of a write that fails, and
    \<open>to_csv_records\<close>, the records \<open>pandas\<close> writes for a table;
  \<^item> \<open>load_workbook\<close>, the workbook \<open>openpyxl\<close> opens at a path, or its error;
  \<^item> \<open>open_error\<close>, the error of \<open>open(csv_path, 'w')\<close> if it fails, \<open>writerow_error\<close>,
    the error of \<open>writer.writerow(row)\<close> if it fails, given the records written so far,
    and \<open>close_error\<close>, the error of closing (and flushing) the file at the end of the
    \<open>with\<close> block, if that fails;
  \<open>cell_text\<close>, the text \<open>str(value)\<close> that \<open>csv.writer\<close> writes for a cell value;
  \<^item> \<open>elapsed\<close>, the duration read from the clock, as the final log message prints it.
\<close>

record 'c pylib =
  unicode_lower :: "pystr \<Rightarrow> pystr"
  splitext :: "pystr \<Rightarrow> pystr \<times> pystr"
  read_csv :: "pystr \<Rightarrow> py_error + dataframe"
  read_excel :: "pystr \<Rightarrow> py_error + dataframe"
  to_excel_error :: "pystr \<Rightarrow> dataframe \<Rightarrow> py_error option"
  to_csv_error :: "pystr \<Rightarrow> dataframe \<Rightarrow> py_error option"
  to_csv_records :: "dataframe \<Rightarrow> 'c row list"
  load_workbook :: "pystr \<Rightarrow> py_error + 'c workbook"
  open_error :: "pystr \<Rightarrow> py_error option"
  writerow_error :: "'c row list \<Rightarrow> 'c row \<Rightarrow> py_error option"
  close_error :: "pystr \<Rightarrow> py_error option"
  cell_text :: "'c \<Rightarrow> pystr"
  elapsed :: pystr

text \<open>
  The world the program acts on: the spreadsheet files written by \<open>to_excel\<close> (the table
  each holds), the delimited-text files (the records each holds, a record being the row
  handed to \<open>writerow\<close>; the bytes and the lines of the file are those of its records,
  see \<open>csv_file_bytes\<close> below), the number of workbook handles and of file handles
  that are open, the number of calls of \<open>gc.collect()\<close> and the messages logged.
  A write that fails leaves the world as it was before the write.
\<close>

record 'c world =
  xlsx_files :: "pystr \<rightharpoonup> dataframe"
  csv_files :: "pystr \<rightharpoonup> 'c row list"
  open_workbooks :: nat
  open_files :: nat
  gc_collections :: nat
  log :: "pystr list"

section \<open>\<open>CsvToExcelConverterParser.parse\<close>\<close>

definition CsvToExcelConverterParser_parse ::
  "'c pylib \<Rightarrow> pystr \<Rightarrow> 'c world \<Rightarrow> (py_error + dataframe) \<times> 'c world"
where
  "CsvToExcelConverterParser_parse lib file_path w =
     (case read_csv lib file_path of
        Inl e \<Rightarrow> (Inl e, w)
      | Inr df0 \<Rightarrow>
          (let base_name = fst (splitext lib file_path);
               excel_output_path = base_name @ str_lit ''.xlsx'';
               df = applymap sanitize_string df0
           in case to_excel_error lib excel_output_path df of
                Some e \<Rightarrow> (Inl e, w)
              | None \<Rightarrow> (Inr df, w\<lparr>xlsx_files := (xlsx_files w)(excel_output_path \<mapsto> df)\<rparr>)))"

section \<open>\<open>stream_excel_to_csv\<close>\<close>

text \<open>\<open>if logger: logger.info(msg)\<close>; the logger is present or not.\<close>

definition info :: "bool \<Rightarrow> pystr \<Rightarrow> 'c world \<Rightarrow> 'c world" where
  "info logger msg w = (if logger then w\<lparr>log := log w @ [msg]\<rparr> else w)"

text \<open>
  The loop over \<open>sheet.values\<close>, with the records written so far. It stops at the first
  \<open>writerow\<close> that fails, and returns the error with what the file then holds.
\<close>

fun write_rows ::
  "('c row list \<Rightarrow> 'c row \<Rightarrow> py_error option) \<Rightarrow> 'c row list \<Rightarrow> 'c row list
     \<Rightarrow> py_error option \<times> 'c row list"
where
  "write_rows werr [] out = (None, out)"
| "write_rows werr (row # rows) out =
     (if row \<noteq> [] \<and> list_ex (\<lambda>cell. cell \<noteq> None) row
      then (case werr out row of
              Some e \<Rightarrow> (Some e, out)
            | None \<Rightarrow> write_rows werr rows (out @ [row]))
      else write_rows werr rows out)"

text \<open>
  The body of the \<open>try\<close>: \<open>sheet = wb.active\<close>, then the \<open>with open(...)\<close> block, which
  truncates the file, runs the loop and closes the file on the way out, error or not.
  \<open>sheet.values\<close> on \<open>None\<close> raises \<open>AttributeError\<close>. An error of closing the file is
  the error of the block, whatever the loop has raised; the handle is released all the same.
\<close>

definition stream_rows ::
  "'c pylib \<Rightarrow> 'c workbook \<Rightarrow> pystr \<Rightarrow> 'c world \<Rightarrow> (py_error + unit) \<times> 'c world"
where
  "stream_rows lib wb csv_path w =
     (let sheet = active wb
      in case open_error lib csv_path of
           Some e \<Rightarrow> (Inl e, w)
         | None \<Rightarrow>
             (let w1 = w\<lparr>csv_files := (csv_files w)(csv_path \<mapsto> []),
                        open_files := Suc (open_files w)\<rparr>;
                  (r, out) =
                    (case sheet of
                       None \<Rightarrow>
                         (Some AttributeError, [])
                     | Some sh \<Rightarrow>
                         (case write_rows (writerow_error lib) (sheet_values sh) [] of
                            (Some e, out) \<Rightarrow> (Some e, out)
                          | (None, out) \<Rightarrow> (values_error sh, out)));
                  w2 = w1\<lparr>csv_files := (csv_files w1)(csv_path \<mapsto> out),
                         open_files := open_files w1 - 1\<rparr>
              in (case close_error lib csv_path of
                    Some e \<Rightarrow> Inl e
                  | None \<Rightarrow> (case r of Some e \<Rightarrow> Inl e | None \<Rightarrow> Inr ()),
                  w2)))"

text \<open>
  \<open>try: body finally: final\<close>: the final block runs whatever the body returns. The final
  block of the source is \<open>wb.close()\<close> and \<open>gc.collect()\<close>, which are taken not to raise.
\<close>

definition try_finally ::
  "('s \<Rightarrow> (py_error + 'a) \<times> 's) \<Rightarrow> ('s \<Rightarrow> 's) \<Rightarrow> 's \<Rightarrow> (py_error + 'a) \<times> 's"
where
  "try_finally body final s = (case body s of (r, s') \<Rightarrow> (r, final s'))"

definition wb_close :: "'c world \<Rightarrow> 'c world" where
  "wb_close w = w\<lparr>open_workbooks := open_workbooks w - 1\<rparr>"

definition gc_collect :: "'c world \<Rightarrow> 'c world" where
  "gc_collect w = w\<lparr>gc_collections := Suc (gc_collections w)\<rparr>"

definition zipped_xml_extensions :: "pystr list" where
  "zipped_xml_extensions = [str_lit ''.xlsx'', str_lit ''.xlsm'', str_lit ''.xltx'']"

definition completed_message :: "'c pylib \<Rightarrow> pystr" where
  "completed_message lib =
     str_lit ''Excel to CSV conversion completed in '' @ elapsed lib @ str_lit ''s''"

definition stream_excel_to_csv ::
  "'c pylib \<Rightarrow> pystr \<Rightarrow> pystr \<Rightarrow> bool \<Rightarrow> 'c world \<Rightarrow> (py_error + unit) \<times> 'c world"
where
  "stream_excel_to_csv lib file_path csv_path logger w =
     (let ext = lower (unicode_lower lib) (snd (splitext lib file_path))
      in if ext \<in> set zipped_xml_extensions
         then
           (let w1 = info logger
                  (str_lit ''Streaming Excel conversion (openpyxl) for: '' @ file_path) w
            in case load_workbook lib file_path of
                 Inl e \<Rightarrow> (Inl e, w1)
               | Inr wb \<Rightarrow>
                   (let w2 = w1\<lparr>open_workbooks := Suc (open_workbooks w1)\<rparr>;
                        (r, w3) = try_finally (stream_rows lib wb csv_path)
                                    (\<lambda>s. gc_collect (wb_close s)) w2
                    in case r of
                         Inl e \<Rightarrow> (Inl e, w3)
                       | Inr x \<Rightarrow> (Inr (), info logger (completed_message lib) w3)))
         else
           (let w1 = info logger
                  (str_lit ''Standard Excel conversion (pandas) for: '' @ file_path) w
            in case read_excel lib file_path of
                 Inl e \<Rightarrow> (Inl e, w1)
               | Inr df \<Rightarrow>
                   (case to_csv_error lib csv_path df of
                      Some e \<Rightarrow> (Inl e, w1)
                    | None \<Rightarrow>
                        (let w2 = w1\<lparr>csv_files :=
                                   (csv_files w1)(csv_path \<mapsto> to_csv_records lib df)\<rparr>;
                             w3 = gc_collect w2
                         in (Inr (), info logger (completed_message lib) w3)))))"

text \<open>The specification's words: a populated row has at least one cell that is not null.\<close>

definition populated :: "'c row \<Rightarrow> bool" where
  "populated row = (\<exists>cell \<in> set row. cell \<noteq> None)"

definition takes_zipped_xml_path :: "'c pylib \<Rightarrow> pystr \<Rightarrow> bool" where
  "takes_zipped_xml_path lib file_path =
     (lower (unicode_lower lib) (snd (splitext lib file_path)) \<in> set zipped_xml_extensions)"

section \<open>The bytes and the lines of the destination file\<close>

text \<open>
  \<open>csv.writer(f)\<close> has the default dialect: fields are separated by a comma, a record
  ends with \<open>\r\n\<close>, and a field is put between double quotes, its own double quotes
  doubled, when it holds a comma, a double quote, a carriage return or a line feed. The
  text of a cell is empty for \<open>None\<close>, and \<open>str(value)\<close> otherwise. A record whose single
  field is empty is written as two double quotes. The file is opened with \<open>newline=''\<close>,
  which leaves the line ends as they are written, and with \<open>encoding='latin1'\<close> and
  \<open>errors='replace'\<close>: a code point above 255 becomes a question mark. The lines of the
  file are counted by its line feeds, every record ending with one.
\<close>

definition field_text :: "('c \<Rightarrow> pystr) \<Rightarrow> 'c option \<Rightarrow> pystr" where
  "field_text str_of cell = (case cell of None \<Rightarrow> [] | Some v \<Rightarrow> str_of v)"

definition needs_quotes :: "pystr \<Rightarrow> bool" where
  "needs_quotes s = list_ex (\<lambda>c. c = 44 \<or> c = 34 \<or> c = 13 \<or> c = 10) s"

definition quote_field :: "pystr \<Rightarrow> pystr" where
  "quote_field s = [34] @ concat (map (\<lambda>c. if c = 34 then [34, 34] else [c]) s) @ [34]"

definition csv_field :: "pystr \<Rightarrow> pystr" where
  "csv_field s = (if needs_quotes s then quote_field s else s)"

fun join_fields :: "pystr list \<Rightarrow> pystr" where
  "join_fields [] = []"
| "join_fields [f] = f"
| "join_fields (f # g # fs) = f @ [44] @ join_fields (g # fs)"

definition csv_record :: "('c \<Rightarrow> pystr) \<Rightarrow> 'c row \<Rightarrow> pystr" where
  "csv_record str_of row =
     (let fields = map (field_text str_of) row
      in (if fields = [[]] then [34, 34] else join_fields (map csv_field fields)) @ [13, 10])"

definition encode_latin1_replace :: "pystr \<Rightarrow> nat list" where
  "encode_latin1_replace s = map (\<lambda>c. if c < 256 then c else 63) s"

definition csv_file_bytes :: "('c \<Rightarrow> pystr) \<Rightarrow> 'c row list \<Rightarrow> nat list" where
  "csv_file_bytes str_of records =
     encode_latin1_replace (concat (map (csv_record str_of) records))"

definition line_count :: "nat list \<Rightarrow> nat" where
  "line_count bytes = length (filter (\<lambda>b. b = 10) bytes)"

text \<open>The line feeds inside the cells of a list of records.\<close>

definition embedded_line_feeds :: "('c \<Rightarrow> pystr) \<Rightarrow> 'c row list \<Rightarrow> nat" where
  "embedded_line_feeds str_of records =
     sum_list (map (\<lambda>row. sum_list (map (\<lambda>cell. line_count (field_text str_of cell)) row))
       records)"

section \<open>A concrete world, for the examples\<close>

text \<open>
  A table with a vertical tab, the non-character \<open>U+FFFE\<close> and a horizontal tab (which is
  legal) in its text cells, and a table with the delete character \<open>U+007F\<close> in a column
  name and in a cell; a worksheet with two populated rows, a row of empty cells and a row
  with no cell, and a worksheet with a line feed inside a cell; \<open>os.path.splitext\<close> as it
  is on POSIX (the extension starts at the last dot of the last path component, leading
  dots of the component apart); libraries that find
  \<open>in.csv\<close>, \<open>hdr.csv\<close>, \<open>book.XLSX\<close> and \<open>notes.xlsx\<close>, with a disk that takes every write
  and with one that is full after the first record. The cells of the worksheets are text.
\<close>

definition example_table :: dataframe where
  "example_table =
     [\<lparr>col_name = str_lit ''name'',
       cells = [CStr (str_lit ''a'' @ [0x0B] @ str_lit ''b''), CStr [0x48, 0xFFFE, 0x69, 0x09]]\<rparr>,
      \<lparr>col_name = str_lit ''n'', cells = [CInt 7, CNaN]\<rparr>]"

definition header_table :: dataframe where
  "header_table = [\<lparr>col_name = [0x6E, 0x7F], cells = [CStr [0x61, 0x7F], CInt 1]\<rparr>]"

definition example_sheet :: "pystr worksheet" where
  "example_sheet =
     \<lparr>sheet_values =
        [[Some (str_lit ''id''), Some (str_lit ''ok'')],
         [None, None],
         [Some (str_lit ''1''), None],
         []],
      values_error = None\<rparr>"

definition example_workbook :: "pystr workbook" where
  "example_workbook = \<lparr>active = Some example_sheet\<rparr>"

definition multiline_sheet :: "pystr worksheet" where
  "multiline_sheet =
     \<lparr>sheet_values =
        [[Some [0x61, 0x0A, 0x62], Some (str_lit ''x'')],
         [None, None],
         [Some (str_lit ''c''), None]],
      values_error = None\<rparr>"

definition multiline_workbook :: "pystr workbook" where
  "multiline_workbook = \<lparr>active = Some multiline_sheet\<rparr>"

definition rfind :: "pystr \<Rightarrow> codepoint \<Rightarrow> nat option" where
  "rfind p c =
     (let n = length (takeWhile (\<lambda>x. x \<noteq> c) (rev p))
      in if n = length p then None else Some (length p - Suc n))"

definition posix_splitext :: "pystr \<Rightarrow> pystr \<times> pystr" where
  "posix_splitext p =
     (case rfind p 46 of
        None \<Rightarrow> (p, [])
      | Some dot \<Rightarrow>
          (let start = (case rfind p 47 of None \<Rightarrow> 0 | Some sep \<Rightarrow> Suc sep)
           in if start \<le> dot \<and> list_ex (\<lambda>c. c \<noteq> 46) (take (dot - start) (drop start p))
              then (take dot p, drop dot p)
              else (p, [])))"

definition example_lib :: "pystr pylib" where
  "example_lib =
     \<lparr>unicode_lower = id,
      splitext = posix_splitext,
      read_csv = (\<lambda>p. if p = str_lit ''in.csv'' then Inr example_table
                       else if p = str_lit ''hdr.csv'' then Inr header_table
                       else Inl (LibraryError (str_lit ''No such file or directory''))),
      read_excel = (\<lambda>p. Inl (LibraryError (str_lit ''No such file or directory''))),
      to_excel_error = (\<lambda>p df. None),
      to_csv_error = (\<lambda>p df. None),
      to_csv_records = (\<lambda>df. []),
      load_workbook = (\<lambda>p. if p = str_lit ''book.XLSX'' then Inr example_workbook
                            else if p = str_lit ''notes.xlsx'' then Inr multiline_workbook
                            else Inl (LibraryError (str_lit ''No such file or directory''))),
      open_error = (\<lambda>p. None),
      writerow_error = (\<lambda>out row. None),
      close_error = (\<lambda>p. None),
      cell_text = id,
      elapsed = str_lit ''0.01''\<rparr>"

definition full_disk_lib :: "pystr pylib" where
  "full_disk_lib =
     example_lib\<lparr>writerow_error :=
       (\<lambda>out row. if length out = 1 then Some (LibraryError (str_lit ''No space left on device''))
                   else None)\<rparr>"

definition example_world :: "pystr world" where
  "example_world =
     \<lparr>xlsx_files = Map.empty, csv_files = Map.empty, open_workbooks = 0, open_files = 0,
      gc_collections = 0, log = []\<rparr>"

section \<open>Properties of \<open>str.lower\<close> and of the classes\<close>




lemma lower_CSV: "lower u (str_lit ''CSV'') = str_lit ''csv''"
  by (simp add: lower_def isascii_def ascii_lower_def str_lit_def)

lemma lower_csv: "lower u (str_lit ''csv'') = str_lit ''csv''"
  by (simp add: lower_def isascii_def ascii_lower_def str_lit_def)


lemma conforming_CsvParser: "conforming CsvParser"
  by (simp add: conforming_def issubclass_def CsvParser_def Parser_def)

lemma conforming_PsvParser: "conforming PsvParser"
  by (simp add: conforming_def issubclass_def PsvParser_def Parser_def)

lemma conforming_ExcelParser: "conforming ExcelParser"
  by (simp add: conforming_def issubclass_def ExcelParser_def Parser_def)

lemma conforming_CsvToExcelConverterParser: "conforming CsvToExcelConverterParser"
  by (simp add: conforming_def issubclass_def CsvToExcelConverterParser_def Parser_def)





lemma NeedsPath_subclass: "issubclass NeedsPath Parser \<and> \<not> conforming NeedsPath"
  by (simp add: conforming_def issubclass_def NeedsPath_def Parser_def)




section \<open>Properties of the registry\<close>


lemma get_parser_lookup:
  "fst (get_parser u self file_type) =
     (case parsers self (lower u file_type) of
        None \<Rightarrow> Inl (UnknownFormat file_type)
      | Some c \<Rightarrow> if truth_value c then instantiate c else Inl (UnknownFormat file_type))"
  by (simp add: get_parser_def UnknownFormat_def split: option.splits)

lemma register_parser_subclass:
  "issubclass c Parser \<Longrightarrow>
     register_parser u self t c = (Inr (), self\<lparr>parsers := (parsers self)(lower u t \<mapsto> c)\<rparr>)"
  by (simp add: register_parser_def)

lemma register_parser_other:
  "\<not> issubclass c Parser \<Longrightarrow> register_parser u self t c = (Inl InvalidParserType, self)"
  by (simp add: register_parser_def InvalidParserType_def)


text \<open>The four registrations of the module succeed, and leave four lowercase keys.\<close>

lemma parser_factory_parsers:
  "parsers (parser_factory u) =
     [str_lit ''csv'' \<mapsto> CsvParser, str_lit ''psv'' \<mapsto> PsvParser,
      str_lit ''excel'' \<mapsto> ExcelParser,
      str_lit ''csv_to_excel'' \<mapsto> CsvToExcelConverterParser]"
proof -
  have l: "lower u (str_lit ''csv'') = str_lit ''csv''"
    "lower u (str_lit ''psv'') = str_lit ''psv''"
    "lower u (str_lit ''excel'') = str_lit ''excel''"
    "lower u (str_lit ''csv_to_excel'') = str_lit ''csv_to_excel''"
    by (simp_all add: lower_def isascii_def ascii_lower_def str_lit_def)
  have c: "issubclass CsvParser Parser" "issubclass PsvParser Parser"
    "issubclass ExcelParser Parser" "issubclass CsvToExcelConverterParser Parser"
    using conforming_CsvParser conforming_PsvParser conforming_ExcelParser
      conforming_CsvToExcelConverterParser
    by (simp_all add: conforming_def)
  show ?thesis
    by (simp add: parser_factory_def register_parser_subclass c l ParserFactory_init_def)
qed

text \<open>
  If no key of the registry equals the tag once both are lowercased, the lookup of the
  lowercased tag finds nothing.
\<close>

lemma no_key_ignoring_case:
  assumes "\<forall>k \<in> dom (parsers self). lower u k \<noteq> lower u tag"
    and "lower u (lower u tag) = lower u tag"
  shows "parsers self (lower u tag) = None"
proof (rule ccontr)
  assume "parsers self (lower u tag) \<noteq> None"
  then have "lower u tag \<in> dom (parsers self)" by (simp add: dom_def)
  with assms(1) have "lower u (lower u tag) \<noteq> lower u tag" by blast
  with assms(2) show False by simp
qed

text \<open>
  Claim C5. Resolution ignores case: for every tag \<open>t\<close> and every registry,
  \<open>get_parser\<close> fails on \<open>t\<close> exactly when it fails on \<open>t.lower()\<close>, and where both return
  a parser the two instances are of the same class; so it is for \<open>"CSV"\<close> and \<open>"csv"\<close>.
  The hypothesis is that lowercasing \<open>t\<close> a second time changes nothing, which holds for
  every ASCII tag (\<open>lower_ascii_idem\<close>) and is a property of the Unicode tables otherwise.
\<close>

theorem get_parser_case_insensitive:
  assumes "lower u (lower u t) = lower u t"
  shows "(isl (fst (get_parser u self t)) \<longleftrightarrow> isl (fst (get_parser u self (lower u t))))
    \<and> (\<forall>p q. fst (get_parser u self t) = Inr p \<and> fst (get_parser u self (lower u t)) = Inr q
          \<longrightarrow> class_of p = class_of q)
    \<and> (isl (fst (get_parser u self (str_lit ''CSV''))) \<longleftrightarrow>
         isl (fst (get_parser u self (str_lit ''csv''))))
    \<and> (\<forall>p q. fst (get_parser u self (str_lit ''CSV'')) = Inr p
            \<and> fst (get_parser u self (str_lit ''csv'')) = Inr q
          \<longrightarrow> class_of p = class_of q)"
  using assms by (auto simp: get_parser_lookup lower_CSV lower_csv split: option.splits)

theorem get_parser_case_insensitive_witness:
  "lower id (lower id (str_lit ''Excel'')) = lower id (str_lit ''Excel'')
   \<and> fst (get_parser id (parser_factory id) (str_lit ''Excel'')) = Inr (Instance ExcelParser)
   \<and> fst (get_parser id (parser_factory id) (lower id (str_lit ''Excel'')))
       = Inr (Instance ExcelParser)
   \<and> fst (get_parser id (parser_factory id) (str_lit ''CSV'')) = Inr (Instance CsvParser)
   \<and> fst (get_parser id (parser_factory id) (str_lit ''csv'')) = Inr (Instance CsvParser)
   \<and> class_of (Instance ExcelParser) = class_of (Instance ExcelParser)"
  using get_parser_case_insensitive [of id "str_lit ''Excel''" "parser_factory id"]
  by (simp add: get_parser_def parser_factory_parsers instantiate_def ExcelParser_def
      CsvParser_def lower_def isascii_def ascii_lower_def str_lit_def)

text \<open>
  Claim C6. For every tag that the registry has no mapping for, looked up without regard
  to case (the lookup of the lowercased tag finds nothing, which by \<open>no_key_ignoring_case\<close>
  is so whenever no key equals the tag up to case), \<open>get_parser\<close> fails with the
  unknown-format error, and the registry after the call is the registry before it.
\<close>

theorem get_parser_unknown_format:
  assumes "parsers self (lower u tag) = None"
  shows "fst (get_parser u self tag) = Inl (UnknownFormat tag)
    \<and> snd (get_parser u self tag) = self"
  using assms by (simp add: get_parser_def UnknownFormat_def)

theorem get_parser_unknown_format_witness:
  "parsers (parser_factory id) (lower id (str_lit ''unknown_format'')) = None
   \<and> fst (get_parser id (parser_factory id) (str_lit ''unknown_format''))
       = Inl (ValueError (str_lit ''No parser registered for file type: unknown_format''))
   \<and> snd (get_parser id (parser_factory id) (str_lit ''unknown_format'')) = parser_factory id"
  using get_parser_unknown_format [of "parser_factory id" id "str_lit ''unknown_format''"]
  by (simp add: parser_factory_parsers UnknownFormat_def lower_def isascii_def ascii_lower_def
      str_lit_def)










section \<open>Properties of the sanitizing\<close>

text \<open>The character class of the source matches exactly the code points the specification lists.\<close>

lemma class_matches_illegal_xml:
  "class_matches illegal_xml_chars_re c \<longleftrightarrow> c \<in> spec_illegal_xml"
  by (auto simp: class_matches_def illegal_xml_chars_re_def spec_illegal_xml_def)

lemma re_sub_illegal_xml:
  "re_sub_empty illegal_xml_chars_re t = filter (\<lambda>x. x \<notin> spec_illegal_xml) t"
  by (simp add: re_sub_empty_def class_matches_illegal_xml)

lemma sanitize_string_spec: "sanitize_string c = spec_sanitize c"
  by (simp add: sanitize_string_def spec_sanitize_def re_sub_illegal_xml split: cell.splits)

lemma applymap_sanitize_spec: "applymap sanitize_string df = applymap spec_sanitize df"
  by (simp add: applymap_def sanitize_string_spec)

lemma spec_sanitize_text:
  "spec_sanitize (CStr t) = CStr (filter (\<lambda>x. x \<notin> spec_illegal_xml) t)"
  by (simp add: spec_sanitize_def)

lemma spec_sanitize_other: "\<not> is_text c \<Longrightarrow> spec_sanitize c = c"
  by (simp add: spec_sanitize_def is_text_def split: cell.splits)

lemma spec_sanitize_clean:
  "spec_sanitize c = CStr t \<Longrightarrow> set t \<inter> spec_illegal_xml = {}"
  by (auto simp: spec_sanitize_def split: cell.splits)

text \<open>
  A call of \<open>parse\<close> that returns a table has read one, has sanitized it, has written the
  sanitized table next to the source and returns that same table.
\<close>

lemma parse_success:
  assumes "fst (CsvToExcelConverterParser_parse lib file_path w) = Inr df"
  shows "\<exists>df0. read_csv lib file_path = Inr df0 \<and> df = applymap sanitize_string df0
    \<and> snd (CsvToExcelConverterParser_parse lib file_path w)
        = w\<lparr>xlsx_files := (xlsx_files w)(fst (splitext lib file_path) @ str_lit ''.xlsx'' \<mapsto> df)\<rparr>"
  using assms
  by (auto simp: CsvToExcelConverterParser_parse_def Let_def split: sum.splits option.splits)

text \<open>The call does return a table when the file is read and the write does not fail.\<close>

lemma parse_returns:
  assumes "read_csv lib file_path = Inr df0"
    and "\<And>path df. to_excel_error lib path df = None"
  shows "fst (CsvToExcelConverterParser_parse lib file_path w) = Inr (applymap sanitize_string df0)"
  using assms by (simp add: CsvToExcelConverterParser_parse_def Let_def)

lemma example_table_sanitized:
  "applymap spec_sanitize example_table =
     [\<lparr>col_name = str_lit ''name'', cells = [CStr (str_lit ''ab''), CStr [0x48, 0x69, 0x09]]\<rparr>,
      \<lparr>col_name = str_lit ''n'', cells = [CInt 7, CNaN]\<rparr>]"
  by (simp add: applymap_def example_table_def spec_sanitize_def spec_illegal_xml_def str_lit_def)

lemma example_parse:
  "CsvToExcelConverterParser_parse example_lib (str_lit ''in.csv'') example_world =
     (Inr (applymap spec_sanitize example_table),
      example_world\<lparr>xlsx_files := [str_lit ''in.xlsx'' \<mapsto> applymap spec_sanitize example_table]\<rparr>)"
  by (simp add: CsvToExcelConverterParser_parse_def Let_def example_lib_def applymap_sanitize_spec
      posix_splitext_def rfind_def Let_def example_world_def)
     (simp add: str_lit_def)

text \<open>
  Claim C4. For every table that \<open>CsvToExcelConverterParser.parse\<close> reads and writes, the
  table in the spreadsheet file is the table read with every cell sanitized in the
  specification's sense: from a text cell all code points in \<open>U+0000\<close>--\<open>U+0008\<close>,
  \<open>U+000B\<close>--\<open>U+000C\<close>, \<open>U+000E\<close>--\<open>U+001F\<close>, \<open>U+007F\<close>--\<open>U+0084\<close>, \<open>U+0086\<close>--\<open>U+009F\<close>,
  \<open>U+FDD0\<close>--\<open>U+FDDF\<close>, \<open>U+FFFE\<close> and \<open>U+FFFF\<close> are removed and no other, and every cell
  that is not text is as it was read.
\<close>

theorem parse_writes_sanitized_table:
  assumes "read_csv lib file_path = Inr df0"
    and "fst (CsvToExcelConverterParser_parse lib file_path w) = Inr df"
  shows "xlsx_files (snd (CsvToExcelConverterParser_parse lib file_path w))
           (fst (splitext lib file_path) @ str_lit ''.xlsx'')
         = Some (applymap spec_sanitize df0)
    \<and> (\<forall>t. spec_sanitize (CStr t) = CStr (filter (\<lambda>x. x \<notin> spec_illegal_xml) t))
    \<and> (\<forall>c. \<not> is_text c \<longrightarrow> spec_sanitize c = c)"
  using parse_success [OF assms(2)] assms(1)
  by (auto simp: applymap_sanitize_spec spec_sanitize_text spec_sanitize_other)

theorem parse_writes_sanitized_table_witness:
  "read_csv example_lib (str_lit ''in.csv'') = Inr example_table
   \<and> fst (CsvToExcelConverterParser_parse example_lib (str_lit ''in.csv'') example_world)
       = Inr [\<lparr>col_name = str_lit ''name'',
               cells = [CStr (str_lit ''ab''), CStr [0x48, 0x69, 0x09]]\<rparr>,
              \<lparr>col_name = str_lit ''n'', cells = [CInt 7, CNaN]\<rparr>]
   \<and> xlsx_files (snd (CsvToExcelConverterParser_parse example_lib (str_lit ''in.csv'')
        example_world)) (str_lit ''in.xlsx'')
       = Some [\<lparr>col_name = str_lit ''name'',
                cells = [CStr (str_lit ''ab''), CStr [0x48, 0x69, 0x09]]\<rparr>,
               \<lparr>col_name = str_lit ''n'', cells = [CInt 7, CNaN]\<rparr>]
   \<and> \<not> is_text (CInt 7) \<and> spec_sanitize (CInt 7) = CInt 7"
  using parse_writes_sanitized_table [of example_lib "str_lit ''in.csv''" example_table
      example_world "applymap spec_sanitize example_table"]
  by (simp add: example_parse example_table_sanitized is_text_def spec_sanitize_def)
     (simp add: example_lib_def)

text \<open>\<open>applymap\<close> keeps the columns and their names, and maps the cells of each.\<close>

lemma applymap_columns:
  "length (applymap f df) = length df
   \<and> (\<forall>i < length df. col_name (applymap f df ! i) = col_name (df ! i)
         \<and> cells (applymap f df ! i) = map f (cells (df ! i)))"
  by (simp add: applymap_def)

lemma header_parse:
  "CsvToExcelConverterParser_parse example_lib (str_lit ''hdr.csv'') example_world =
     (Inr [\<lparr>col_name = [0x6E, 0x7F], cells = [CStr [0x61], CInt 1]\<rparr>],
      example_world\<lparr>xlsx_files :=
        [str_lit ''hdr.xlsx'' \<mapsto> [\<lparr>col_name = [0x6E, 0x7F], cells = [CStr [0x61], CInt 1]\<rparr>]]\<rparr>)"
  by (simp add: CsvToExcelConverterParser_parse_def Let_def example_lib_def applymap_sanitize_spec
      posix_splitext_def rfind_def Let_def example_world_def)
     (simp add: str_lit_def applymap_def header_table_def spec_sanitize_def spec_illegal_xml_def)

text \<open>
  Claim C10, as stated: a caller never observes the illegal characters in the returned
  value. It is not so for the column names, which \<open>applymap\<close> does not touch: the table of
  \<open>hdr.csv\<close> has the delete character \<open>U+007F\<close>, which is in the illegal set, in a column
  name and in a cell; the table returned has it removed from the cell and still has it in
  the column name.
\<close>

theorem parse_returns_unsanitized_header:
  "read_csv example_lib (str_lit ''hdr.csv'')
     = Inr [\<lparr>col_name = [0x6E, 0x7F], cells = [CStr [0x61, 0x7F], CInt 1]\<rparr>]
   \<and> fst (CsvToExcelConverterParser_parse example_lib (str_lit ''hdr.csv'') example_world)
       = Inr [\<lparr>col_name = [0x6E, 0x7F], cells = [CStr [0x61], CInt 1]\<rparr>]
   \<and> (0x7F :: codepoint) \<in> spec_illegal_xml"
  by (simp add: header_parse) (simp add: example_lib_def header_table_def spec_illegal_xml_def
      str_lit_def)

text \<open>
  Claim C10, amended. The table \<open>CsvToExcelConverterParser.parse\<close> returns is the sanitized
  one, not the table as read: whenever the call returns a table, it has the columns of the
  table read, under the same names, the cells of each column are the cells read, sanitized
  one by one, it is the very table written to the spreadsheet file, and no text cell of it
  holds a code point that is illegal in XML. The column names are returned as they were
  read, not sanitized.
\<close>

theorem parse_returns_sanitized_table:
  assumes "fst (CsvToExcelConverterParser_parse lib file_path w) = Inr df"
  shows "\<exists>df0. read_csv lib file_path = Inr df0
    \<and> length df = length df0
    \<and> (\<forall>i < length df0. col_name (df ! i) = col_name (df0 ! i)
          \<and> cells (df ! i) = map spec_sanitize (cells (df0 ! i)))
    \<and> xlsx_files (snd (CsvToExcelConverterParser_parse lib file_path w))
         (fst (splitext lib file_path) @ str_lit ''.xlsx'') = Some df
    \<and> (\<forall>col \<in> set df. \<forall>c \<in> set (cells col). \<forall>t. c = CStr t \<longrightarrow>
          set t \<inter> spec_illegal_xml = {})"
proof -
  from parse_success [OF assms] obtain df0 where df0: "read_csv lib file_path = Inr df0"
    and df: "df = applymap spec_sanitize df0"
    and w': "snd (CsvToExcelConverterParser_parse lib file_path w)
      = w\<lparr>xlsx_files := (xlsx_files w)(fst (splitext lib file_path) @ str_lit ''.xlsx'' \<mapsto> df)\<rparr>"
    by (auto simp: applymap_sanitize_spec)
  have clean: "set t \<inter> spec_illegal_xml = {}"
    if "col \<in> set df" "CStr t \<in> set (cells col)" for col t
  proof -
    from that df obtain c where "spec_sanitize c = CStr t"
      by (auto simp: applymap_def)
    then show ?thesis by (rule spec_sanitize_clean)
  qed
  from applymap_columns [of spec_sanitize df0] df
  have cols: "length df = length df0"
    "\<forall>i < length df0. col_name (df ! i) = col_name (df0 ! i)
        \<and> cells (df ! i) = map spec_sanitize (cells (df0 ! i))"
    by simp_all
  from w' have written: "xlsx_files (snd (CsvToExcelConverterParser_parse lib file_path w))
      (fst (splitext lib file_path) @ str_lit ''.xlsx'') = Some df"
    by simp
  from clean have "\<forall>col \<in> set df. \<forall>c \<in> set (cells col). \<forall>t. c = CStr t \<longrightarrow>
      set t \<inter> spec_illegal_xml = {}"
    by blast
  with df0 cols written show ?thesis by blast
qed

theorem parse_returns_sanitized_table_witness:
  "fst (CsvToExcelConverterParser_parse example_lib (str_lit ''in.csv'') example_world)
     = Inr [\<lparr>col_name = str_lit ''name'',
             cells = [CStr (str_lit ''ab''), CStr [0x48, 0x69, 0x09]]\<rparr>,
            \<lparr>col_name = str_lit ''n'', cells = [CInt 7, CNaN]\<rparr>]
   \<and> read_csv example_lib (str_lit ''in.csv'')
       = Inr [\<lparr>col_name = str_lit ''name'',
               cells = [CStr (str_lit ''a'' @ [0x0B] @ str_lit ''b''),
                        CStr [0x48, 0xFFFE, 0x69, 0x09]]\<rparr>,
              \<lparr>col_name = str_lit ''n'', cells = [CInt 7, CNaN]\<rparr>]
   \<and> xlsx_files (snd (CsvToExcelConverterParser_parse example_lib (str_lit ''in.csv'')
        example_world)) (str_lit ''in.xlsx'')
       = Some [\<lparr>col_name = str_lit ''name'',
                cells = [CStr (str_lit ''ab''), CStr [0x48, 0x69, 0x09]]\<rparr>,
               \<lparr>col_name = str_lit ''n'', cells = [CInt 7, CNaN]\<rparr>]
   \<and> spec_sanitize (CStr [0x48, 0xFFFE, 0x69, 0x09]) = CStr [0x48, 0x69, 0x09]
   \<and> set [0x48, 0x69, 0x09] \<inter> spec_illegal_xml = {}"
proof -
  have r: "fst (CsvToExcelConverterParser_parse example_lib (str_lit ''in.csv'') example_world)
      = Inr (applymap spec_sanitize example_table)"
    by (simp add: example_parse)
  have c: "read_csv example_lib (str_lit ''in.csv'') = Inr example_table"
    by (simp add: example_lib_def)
  have f: "xlsx_files (snd (CsvToExcelConverterParser_parse example_lib (str_lit ''in.csv'')
      example_world)) (str_lit ''in.xlsx'') = Some (applymap spec_sanitize example_table)"
    by (simp add: example_parse)
  have s: "spec_sanitize (CStr [0x48, 0xFFFE, 0x69, 0x09]) = CStr [0x48, 0x69, 0x09]"
    by (simp add: spec_sanitize_def spec_illegal_xml_def)
  have i: "set [0x48, 0x69, 0x09] \<inter> spec_illegal_xml = {}"
    by (simp add: spec_illegal_xml_def)
  from parse_returns_sanitized_table [OF r] r c f s i show ?thesis
    by (simp add: example_table_sanitized) (simp add: example_table_def)
qed

section \<open>Properties of the streaming conversion\<close>

text \<open>The test of the loop is the specification's: the row has a cell that is not null.\<close>

lemma row_test_populated:
  "(row \<noteq> [] \<and> list_ex (\<lambda>cell. cell \<noteq> None) row) \<longleftrightarrow> populated row"
  by (auto simp: populated_def list_ex_iff)

lemma write_rows_Cons:
  "write_rows werr (row # rows) out =
     (if populated row
      then (case werr out row of
              Some e \<Rightarrow> (Some e, out)
            | None \<Rightarrow> write_rows werr rows (out @ [row]))
      else write_rows werr rows out)"
  by (simp only: write_rows.simps row_test_populated)

text \<open>A loop that ends without error has appended the populated rows, in their order.\<close>

lemma write_rows_success:
  "write_rows werr rows out = (None, out') \<Longrightarrow> out' = out @ filter populated rows"
proof (induction rows arbitrary: out)
  case Nil
  then show ?case by simp
next
  case (Cons row rows)
  show ?case
  proof (cases "populated row")
    case True
    with Cons.prems have "werr out row = None"
      and "write_rows werr rows (out @ [row]) = (None, out')"
      by (auto simp: write_rows_Cons simp del: write_rows.simps(2) split: option.splits)
    with Cons.IH [of "out @ [row]"] True show ?thesis by simp
  next
    case False
    with Cons.prems have "write_rows werr rows out = (None, out')"
      by (simp add: write_rows_Cons del: write_rows.simps(2))
    with Cons.IH [of out] False show ?thesis by simp
  qed
qed

lemma write_rows_no_error:
  "(\<And>out row. werr out row = None) \<Longrightarrow>
     write_rows werr rows out = (None, out @ filter populated rows)"
  by (induction rows arbitrary: out) (simp_all add: write_rows_Cons del: write_rows.simps(2))

text \<open>
  The body of the \<open>try\<close> leaves the workbook handle open, closes the file it opened and
  does not call the collector: closing the workbook is the \<open>finally\<close> block's work.
\<close>

lemma stream_rows_handles:
  "open_workbooks (snd (stream_rows lib wb csv_path w)) = open_workbooks w
   \<and> open_files (snd (stream_rows lib wb csv_path w)) = open_files w
   \<and> gc_collections (snd (stream_rows lib wb csv_path w)) = gc_collections w"
  by (simp add: stream_rows_def Let_def split: option.splits prod.splits)

lemma info_handles:
  "open_workbooks (info logger msg w) = open_workbooks w
   \<and> open_files (info logger msg w) = open_files w
   \<and> gc_collections (info logger msg w) = gc_collections w
   \<and> csv_files (info logger msg w) = csv_files w"
  by (simp add: info_def)

text \<open>On the zipped-XML path, with the workbook opened, the call is the guarded body.\<close>

lemma stream_zipped:
  assumes "takes_zipped_xml_path lib file_path"
    and "load_workbook lib file_path = Inr wb"
    and "stream_rows lib wb csv_path
           ((info logger (str_lit ''Streaming Excel conversion (openpyxl) for: '' @ file_path) w)
             \<lparr>open_workbooks := Suc (open_workbooks w)\<rparr>) = (r, w3)"
  shows "stream_excel_to_csv lib file_path csv_path logger w
      = (case r of Inl e \<Rightarrow> (Inl e, gc_collect (wb_close w3))
         | Inr x \<Rightarrow> (Inr (), info logger (completed_message lib) (gc_collect (wb_close w3))))"
  using assms
  by (simp add: stream_excel_to_csv_def takes_zipped_xml_path_def try_finally_def Let_def
      info_handles split: sum.splits)

text \<open>
  The conversion does succeed when nothing fails: the file opens, every write is taken,
  the iteration over the rows raises nothing and the file closes.
\<close>

lemma stream_succeeds:
  assumes "takes_zipped_xml_path lib file_path"
    and "load_workbook lib file_path = Inr wb"
    and "active wb = Some sheet"
    and "values_error sheet = None"
    and "open_error lib csv_path = None"
    and "close_error lib csv_path = None"
    and "\<And>out row. writerow_error lib out row = None"
  shows "fst (stream_excel_to_csv lib file_path csv_path logger w) = Inr ()"
proof -
  let ?w2 = "(info logger (str_lit ''Streaming Excel conversion (openpyxl) for: '' @ file_path) w)
      \<lparr>open_workbooks := Suc (open_workbooks w)\<rparr>"
  have "fst (stream_rows lib wb csv_path ?w2) = Inr ()"
    using assms(3-6) write_rows_no_error [of "writerow_error lib" "sheet_values sheet" "[]"]
      assms(7)
    by (simp add: stream_rows_def Let_def)
  then obtain w3 where "stream_rows lib wb csv_path ?w2 = (Inr (), w3)"
    by (cases "stream_rows lib wb csv_path ?w2") simp
  from stream_zipped [OF assms(1,2) this] show ?thesis by simp
qed

lemma takes_zipped_example: "takes_zipped_xml_path example_lib (str_lit ''book.XLSX'')"
  by (simp add: takes_zipped_xml_path_def example_lib_def posix_splitext_def rfind_def Let_def
      zipped_xml_extensions_def lower_def isascii_def ascii_lower_def str_lit_def)

lemma takes_zipped_notes: "takes_zipped_xml_path example_lib (str_lit ''notes.xlsx'')"
  by (simp add: takes_zipped_xml_path_def example_lib_def posix_splitext_def rfind_def Let_def
      zipped_xml_extensions_def lower_def isascii_def ascii_lower_def str_lit_def)

lemma takes_zipped_full_disk: "takes_zipped_xml_path full_disk_lib (str_lit ''book.XLSX'')"
  by (simp add: takes_zipped_xml_path_def full_disk_lib_def example_lib_def posix_splitext_def rfind_def Let_def
      zipped_xml_extensions_def lower_def isascii_def ascii_lower_def str_lit_def)

text \<open>
  Claim C2. For every call of \<open>stream_excel_to_csv\<close> that takes the zipped-XML path and
  opens the workbook, the workbook handle is closed when the call returns, whatever the
  result: as many workbook handles are open after the call as before it, although the call
  opened one. The same holds of the destination file's handle, and the collector has been
  called once. The statement is about every library behaviour, so about every exit path:
  a file that does not open, a write that fails, an iteration that raises, and success.
\<close>

theorem workbook_closed_on_every_exit:
  assumes "takes_zipped_xml_path lib file_path"
    and "load_workbook lib file_path = Inr wb"
  shows "open_workbooks (snd (stream_excel_to_csv lib file_path csv_path logger w))
           = open_workbooks w
    \<and> open_files (snd (stream_excel_to_csv lib file_path csv_path logger w)) = open_files w
    \<and> gc_collections (snd (stream_excel_to_csv lib file_path csv_path logger w))
           = Suc (gc_collections w)"
proof -
  let ?w2 = "(info logger (str_lit ''Streaming Excel conversion (openpyxl) for: '' @ file_path) w)
      \<lparr>open_workbooks := Suc (open_workbooks w)\<rparr>"
  obtain r w3 where body: "stream_rows lib wb csv_path ?w2 = (r, w3)"
    by (cases "stream_rows lib wb csv_path ?w2")
  from stream_rows_handles [of lib wb csv_path ?w2] body
  have w3: "open_workbooks w3 = Suc (open_workbooks w)" "open_files w3 = open_files w"
    "gc_collections w3 = gc_collections w"
    by (simp_all add: info_handles)
  from stream_zipped [OF assms body] w3 show ?thesis
    by (simp add: info_handles gc_collect_def wb_close_def split: sum.splits)
qed

theorem workbook_closed_on_every_exit_witness:
  "takes_zipped_xml_path full_disk_lib (str_lit ''book.XLSX'')
   \<and> load_workbook full_disk_lib (str_lit ''book.XLSX'') = Inr example_workbook
   \<and> fst (stream_excel_to_csv full_disk_lib (str_lit ''book.XLSX'') (str_lit ''out.csv'') True
        example_world) = Inl (LibraryError (str_lit ''No space left on device''))
   \<and> open_workbooks (snd (stream_excel_to_csv full_disk_lib (str_lit ''book.XLSX'')
        (str_lit ''out.csv'') True example_world)) = 0
   \<and> open_workbooks example_world = 0"
proof -
  have z: "takes_zipped_xml_path full_disk_lib (str_lit ''book.XLSX'')"
    by (rule takes_zipped_full_disk)
  have l: "load_workbook full_disk_lib (str_lit ''book.XLSX'') = Inr example_workbook"
    by (simp add: full_disk_lib_def example_lib_def)
  have r: "fst (stream_excel_to_csv full_disk_lib (str_lit ''book.XLSX'') (str_lit ''out.csv'')
      True example_world) = Inl (LibraryError (str_lit ''No space left on device''))"
    using z l
    by (simp add: stream_excel_to_csv_def takes_zipped_xml_path_def try_finally_def
        stream_rows_def Let_def example_workbook_def example_sheet_def)
       (simp add: full_disk_lib_def example_lib_def)
  from workbook_closed_on_every_exit [OF z l, of "str_lit ''out.csv''" True example_world] z l r
  show ?thesis by (simp add: example_world_def)
qed

subsection \<open>Records and lines\<close>

lemma line_count_append: "line_count (xs @ ys) = line_count xs + line_count ys"
  by (simp add: line_count_def)

lemma line_count_quote_field: "line_count (quote_field s) = line_count s"
  by (induction s) (simp_all add: quote_field_def line_count_def)

lemma line_count_csv_field: "line_count (csv_field s) = line_count s"
  by (simp add: csv_field_def line_count_quote_field)

lemma line_count_join_fields:
  "line_count (join_fields fs) = sum_list (map line_count fs)"
  by (induction fs rule: join_fields.induct) (simp_all add: line_count_def)

text \<open>A record takes one line, and one more for every line feed inside its cells.\<close>

lemma line_count_csv_record:
  "line_count (csv_record str_of row)
     = Suc (sum_list (map (\<lambda>cell. line_count (field_text str_of cell)) row))"
proof (cases "map (field_text str_of) row = [[]]")
  case True
  then obtain cell where "row = [cell]" and "field_text str_of cell = []"
    by (cases row) auto
  then show ?thesis
    by (simp add: csv_record_def line_count_def)
next
  case False
  have "line_count (join_fields (map csv_field (map (field_text str_of) row)))
      = sum_list (map (\<lambda>cell. line_count (field_text str_of cell)) row)"
    by (simp add: line_count_join_fields line_count_csv_field comp_def)
  with False show ?thesis
    by (simp add: csv_record_def line_count_append) (simp add: line_count_def)
qed

lemma line_count_encode: "line_count (encode_latin1_replace s) = line_count s"
  by (induction s) (simp_all add: encode_latin1_replace_def line_count_def)

lemma line_count_csv_file:
  "line_count (csv_file_bytes str_of records)
     = length records + embedded_line_feeds str_of records"
proof -
  have "line_count (concat (map (csv_record str_of) records))
      = length records + embedded_line_feeds str_of records"
    by (induction records)
       (simp_all add: embedded_line_feeds_def line_count_append line_count_csv_record,
        simp add: line_count_def)
  then show ?thesis
    by (simp add: csv_file_bytes_def line_count_encode)
qed

text \<open>
  A successful conversion on the zipped-XML path leaves in the destination file the
  populated rows of the active sheet, in their order.
\<close>

lemma stream_success:
  assumes "takes_zipped_xml_path lib file_path"
    and "load_workbook lib file_path = Inr wb"
    and "fst (stream_excel_to_csv lib file_path csv_path logger w) = Inr ()"
  shows "\<exists>sheet. active wb = Some sheet
    \<and> csv_files (snd (stream_excel_to_csv lib file_path csv_path logger w)) csv_path
        = Some (filter populated (sheet_values sheet))"
proof -
  let ?w2 = "(info logger (str_lit ''Streaming Excel conversion (openpyxl) for: '' @ file_path) w)
      \<lparr>open_workbooks := Suc (open_workbooks w)\<rparr>"
  obtain r w3 where body: "stream_rows lib wb csv_path ?w2 = (r, w3)"
    by (cases "stream_rows lib wb csv_path ?w2")
  note res = stream_zipped [OF assms(1,2) body]
  with assms(3) have r: "r = Inr ()" by (simp split: sum.splits)
  with res have final: "csv_files (snd (stream_excel_to_csv lib file_path csv_path logger w))
      = csv_files w3"
    by (simp add: info_handles gc_collect_def wb_close_def)
  from body r obtain sheet where sheet: "active wb = Some sheet"
    and "csv_files w3 csv_path = Some (filter populated (sheet_values sheet))"
    by (auto simp: stream_rows_def Let_def split: option.splits prod.splits
        dest: write_rows_success)
  with final show ?thesis by simp
qed

lemma stream_example:
  "fst (stream_excel_to_csv example_lib (str_lit ''book.XLSX'') (str_lit ''out.csv'') False
     example_world) = Inr ()"
proof (rule stream_succeeds [OF takes_zipped_example])
  show "load_workbook example_lib (str_lit ''book.XLSX'') = Inr example_workbook"
    by (simp add: example_lib_def)
  show "active example_workbook = Some example_sheet"
    by (simp add: example_workbook_def)
  show "values_error example_sheet = None"
    by (simp add: example_sheet_def)
  show "open_error example_lib (str_lit ''out.csv'') = None"
    by (simp add: example_lib_def)
  show "close_error example_lib (str_lit ''out.csv'') = None"
    by (simp add: example_lib_def)
  show "writerow_error example_lib out row = None" for out row
    by (simp add: example_lib_def)
qed

lemma stream_notes:
  "fst (stream_excel_to_csv example_lib (str_lit ''notes.xlsx'') (str_lit ''out.csv'') False
     example_world) = Inr ()"
proof (rule stream_succeeds [OF takes_zipped_notes])
  show "load_workbook example_lib (str_lit ''notes.xlsx'') = Inr multiline_workbook"
    by (simp add: example_lib_def str_lit_def)
  show "active multiline_workbook = Some multiline_sheet"
    by (simp add: multiline_workbook_def)
  show "values_error multiline_sheet = None"
    by (simp add: multiline_sheet_def)
  show "open_error example_lib (str_lit ''out.csv'') = None"
    by (simp add: example_lib_def)
  show "close_error example_lib (str_lit ''out.csv'') = None"
    by (simp add: example_lib_def)
  show "writerow_error example_lib out row = None" for out row
    by (simp add: example_lib_def)
qed

lemma multiline_populated:
  "filter populated (sheet_values multiline_sheet)
     = [[Some [0x61, 0x0A, 0x62], Some (str_lit ''x'')], [Some (str_lit ''c''), None]]"
  by (simp add: multiline_sheet_def populated_def)

lemma multiline_bytes:
  "csv_file_bytes (cell_text example_lib)
       [[Some [0x61, 0x0A, 0x62], Some (str_lit ''x'')], [Some (str_lit ''c''), None]]
     = [34, 97, 10, 98, 34, 44, 120, 13, 10, 99, 44, 13, 10]"
  by (simp add: csv_file_bytes_def csv_record_def csv_field_def needs_quotes_def quote_field_def
      field_text_def encode_latin1_replace_def example_lib_def str_lit_def)

text \<open>
  Claim C3, as the specification states it: the destination has as many lines as the sheet
  has populated rows. It is not so when a cell holds a line feed: the sheet of \<open>notes.xlsx\<close>
  has two populated rows and a row of empty cells, the conversion succeeds and writes two
  records, and the file has three lines, the first record being
  \<open>"a\<close>, \<open>b",x\<close> over two of them.
\<close>

theorem streaming_line_count_exceeds_rows:
  "takes_zipped_xml_path example_lib (str_lit ''notes.xlsx'')
   \<and> load_workbook example_lib (str_lit ''notes.xlsx'') = Inr multiline_workbook
   \<and> active multiline_workbook = Some multiline_sheet
   \<and> length (filter populated (sheet_values multiline_sheet)) = 2
   \<and> fst (stream_excel_to_csv example_lib (str_lit ''notes.xlsx'') (str_lit ''out.csv'') False
        example_world) = Inr ()
   \<and> csv_files (snd (stream_excel_to_csv example_lib (str_lit ''notes.xlsx'')
        (str_lit ''out.csv'') False example_world)) (str_lit ''out.csv'')
       = Some [[Some [0x61, 0x0A, 0x62], Some (str_lit ''x'')], [Some (str_lit ''c''), None]]
   \<and> csv_file_bytes (cell_text example_lib)
        [[Some [0x61, 0x0A, 0x62], Some (str_lit ''x'')], [Some (str_lit ''c''), None]]
       = [34, 97, 10, 98, 34, 44, 120, 13, 10, 99, 44, 13, 10]
   \<and> line_count [34, 97, 10, 98, 34, 44, 120, 13, 10, 99, 44, 13, 10] = 3"
proof -
  have l: "load_workbook example_lib (str_lit ''notes.xlsx'') = Inr multiline_workbook"
    by (simp add: example_lib_def str_lit_def)
  have a: "active multiline_workbook = Some multiline_sheet"
    by (simp add: multiline_workbook_def)
  from stream_success [OF takes_zipped_notes l stream_notes] a
  have d: "csv_files (snd (stream_excel_to_csv example_lib (str_lit ''notes.xlsx'')
      (str_lit ''out.csv'') False example_world)) (str_lit ''out.csv'')
      = Some [[Some [0x61, 0x0A, 0x62], Some (str_lit ''x'')], [Some (str_lit ''c''), None]]"
    by (simp add: multiline_populated)
  have n: "length (filter populated (sheet_values multiline_sheet)) = 2"
    by (simp add: multiline_populated)
  have c: "line_count [34, 97, 10, 98, 34, 44, 120, 13, 10, 99, 44, 13, 10] = 3"
    by (simp add: line_count_def)
  from takes_zipped_notes l a n stream_notes d multiline_bytes c show ?thesis
    by simp
qed

text \<open>
  Claim C3, amended. For every zipped-XML workbook that \<open>stream_excel_to_csv\<close> converts (the
  call returns without error), the destination file holds exactly the rows of the active
  sheet that have at least one non-null cell, one record each and in the sheet's order; the
  rows whose cells are all null, and the rows with no cell, are left out, so the file has
  as many records as the sheet has populated rows. A record takes one line and one more
  for every line feed inside its cells: the file has as many lines as records exactly
  when no cell written holds a line feed.
\<close>

theorem streaming_writes_populated_rows:
  assumes "takes_zipped_xml_path lib file_path"
    and "load_workbook lib file_path = Inr wb"
    and "fst (stream_excel_to_csv lib file_path csv_path logger w) = Inr ()"
  shows "\<exists>sheet dest. active wb = Some sheet
    \<and> csv_files (snd (stream_excel_to_csv lib file_path csv_path logger w)) csv_path = Some dest
    \<and> dest = filter populated (sheet_values sheet)
    \<and> (\<forall>row \<in> set (sheet_values sheet). \<not> populated row \<longrightarrow> row \<notin> set dest)
    \<and> length dest
        = card {i. i < length (sheet_values sheet) \<and> populated (sheet_values sheet ! i)}
    \<and> line_count (csv_file_bytes (cell_text lib) dest)
        = length dest + embedded_line_feeds (cell_text lib) dest
    \<and> (line_count (csv_file_bytes (cell_text lib) dest) = length dest
         \<longleftrightarrow> embedded_line_feeds (cell_text lib) dest = 0)"
proof -
  from stream_success [OF assms] obtain sheet where sheet: "active wb = Some sheet"
    and dest: "csv_files (snd (stream_excel_to_csv lib file_path csv_path logger w)) csv_path
      = Some (filter populated (sheet_values sheet))"
    by blast
  have "length (filter populated (sheet_values sheet))
      = card {i. i < length (sheet_values sheet) \<and> populated (sheet_values sheet ! i)}"
    by (rule length_filter_conv_card)
  with sheet dest show ?thesis
    by (auto simp: line_count_csv_file)
qed

theorem streaming_writes_populated_rows_witness:
  "takes_zipped_xml_path example_lib (str_lit ''book.XLSX'')
   \<and> load_workbook example_lib (str_lit ''book.XLSX'') = Inr example_workbook
   \<and> fst (stream_excel_to_csv example_lib (str_lit ''book.XLSX'') (str_lit ''out.csv'') False
        example_world) = Inr ()
   \<and> active example_workbook = Some example_sheet
   \<and> length (sheet_values example_sheet) = 4
   \<and> csv_files (snd (stream_excel_to_csv example_lib (str_lit ''book.XLSX'')
        (str_lit ''out.csv'') False example_world)) (str_lit ''out.csv'')
       = Some [[Some (str_lit ''id''), Some (str_lit ''ok'')], [Some (str_lit ''1''), None]]
   \<and> csv_file_bytes (cell_text example_lib)
        [[Some (str_lit ''id''), Some (str_lit ''ok'')], [Some (str_lit ''1''), None]]
       = str_lit ''id,ok'' @ [13, 10] @ str_lit ''1,'' @ [13, 10]
   \<and> line_count (str_lit ''id,ok'' @ [13, 10] @ str_lit ''1,'' @ [13, 10]) = 2"
proof -
  have l: "load_workbook example_lib (str_lit ''book.XLSX'') = Inr example_workbook"
    by (simp add: example_lib_def)
  have p: "filter populated (sheet_values example_sheet)
      = [[Some (str_lit ''id''), Some (str_lit ''ok'')], [Some (str_lit ''1''), None]]"
    by (simp add: example_sheet_def populated_def)
  have b: "csv_file_bytes (cell_text example_lib)
      [[Some (str_lit ''id''), Some (str_lit ''ok'')], [Some (str_lit ''1''), None]]
      = str_lit ''id,ok'' @ [13, 10] @ str_lit ''1,'' @ [13, 10]"
    by (simp add: csv_file_bytes_def csv_record_def csv_field_def needs_quotes_def
        quote_field_def field_text_def encode_latin1_replace_def example_lib_def str_lit_def)
  have c: "line_count (str_lit ''id,ok'' @ [13, 10] @ str_lit ''1,'' @ [13, 10]) = 2"
    by (simp add: line_count_def str_lit_def)
  have n: "length (sheet_values example_sheet) = 4"
    by (simp add: example_sheet_def)
  from streaming_writes_populated_rows [OF takes_zipped_example l stream_example]
    takes_zipped_example l stream_example p b c n
  show ?thesis
    by (auto simp: example_workbook_def)
qed

end
